theory Spec2Isabelle
  imports Main
begin

section \<open>The Rancher host resource: data\<close>

text \<open>
  Label values are Go \<^verbatim>\<open>interface{}\<close> values: a string, or the nil interface that
  indexing a map at a missing key yields.
\<close>

datatype val = VNil | VStr string

type_synonym labelmap = "string \<rightharpoonup> val"

text \<open>Go's \<^verbatim>\<open>m[k]\<close> on a \<^verbatim>\<open>map[string]interface{}\<close>: the zero value (nil) at a missing key.\<close>

definition index :: "labelmap \<Rightarrow> string \<Rightarrow> val" where
  "index m k = (case m k of None \<Rightarrow> VNil | Some v \<Rightarrow> v)"

text \<open>
  \<^verbatim>\<open>rancher.Host\<close>, restricted to the fields the resource touches. The field
  \<^verbatim>\<open>Id\<close> is named \<open>Id_host\<close> here.
\<close>

record Host =
  Id_host :: string
  Name :: string
  Description :: string
  Hostname :: string
  State :: string
  Labels :: labelmap

text \<open>
  \<^verbatim>\<open>schema.ResourceData\<close>: the stored id (\<^verbatim>\<open>d.Id()\<close>, \<^verbatim>\<open>d.SetId\<close>) and one
  field for each attribute of the schema (\<^verbatim>\<open>d.Get\<close>, \<^verbatim>\<open>d.Set\<close>).
\<close>

record ResourceData =
  rd_id :: string
  rd_name :: string
  rd_description :: string
  rd_environment_id :: string
  rd_hostname :: string
  rd_labels :: labelmap

text \<open>The \<^verbatim>\<open>data\<close> map literal handed to \<^verbatim>\<open>client.Update\<close>: three fixed keys.\<close>

record UpdateData =
  data_name :: string
  data_description :: string
  data_labels :: labelmap

text \<open>
  What an operation can end with besides success: a Go \<^verbatim>\<open>error\<close> (its message), or
  a run-time panic.
\<close>

datatype failure = Error string | NilDereference | InterfaceConversion

subsection \<open>The schema\<close>

datatype ValueType =
  TypeInvalid | TypeBool | TypeInt | TypeFloat | TypeString | TypeList | TypeMap | TypeSet

record Schema =
  Type :: ValueType
  Required :: bool
  Optional :: bool
  Computed :: bool

definition schema0 :: Schema where
  "schema0 = \<lparr>Type = TypeInvalid, Required = False, Optional = False, Computed = False\<rparr>"

text \<open>The \<^verbatim>\<open>Schema\<close> map literal of \<^verbatim>\<open>resourceRancherHost\<close>, in source order.\<close>

definition resourceRancherHost_Schema :: "(string \<times> Schema) list" where
  "resourceRancherHost_Schema =
     [(''id'', schema0\<lparr>Type := TypeString, Computed := True\<rparr>),
      (''name'', schema0\<lparr>Type := TypeString, Required := True\<rparr>),
      (''description'', schema0\<lparr>Type := TypeString, Optional := True\<rparr>),
      (''environment_id'', schema0\<lparr>Type := TypeString, Required := True\<rparr>),
      (''hostname'', schema0\<lparr>Type := TypeString, Required := True\<rparr>),
      (''labels'', schema0\<lparr>Type := TypeMap, Optional := True\<rparr>)]"

subsection \<open>Reserved labels\<close>

definition roLabels :: "string list" where
  "roLabels =
     [''io.rancher.host.agent_image'',
      ''io.rancher.host.docker_version'',
      ''io.rancher.host.kvm'',
      ''io.rancher.host.linux_kernel_version'']"

section \<open>The remote client\<close>

text \<open>
  The remote platform is a state \<open>'w\<close> that every client call may read and change.
  A Go result \<^verbatim>\<open>(*T, error)\<close> is a pair of options: either component may be nil.
\<close>

record 'w RancherClient =
  Host_ById :: "string \<Rightarrow> 'w \<Rightarrow> (Host option \<times> string option) \<times> 'w"
  Host_List :: "'w \<Rightarrow> (Host list option \<times> string option) \<times> 'w"
  Host_ActionDeactivate :: "Host \<Rightarrow> 'w \<Rightarrow> (Host option \<times> string option) \<times> 'w"
  Host_Delete :: "Host \<Rightarrow> 'w \<Rightarrow> string option \<times> 'w"
  Update :: "string \<Rightarrow> Host \<Rightarrow> UpdateData \<Rightarrow> 'w \<Rightarrow> string option \<times> 'w"

text \<open>
  \<^verbatim>\<open>Config.EnvironmentClient\<close> is declared outside this file; it is a parameter
  here: given the environment id it yields a client or an error.
\<close>

record 'w Config =
  EnvironmentClient :: "string \<Rightarrow> 'w \<Rightarrow> (string + 'w RancherClient) \<times> 'w"

text \<open>
  Every call that reaches the remote side is recorded, with its arguments, in the
  order it is made.
\<close>

datatype call =
    CallEnvironmentClient string
  | CallById string
  | CallList
  | CallActionDeactivate Host
  | CallDelete Host
  | CallUpdate string Host UpdateData

record 'w remote =
  world :: 'w
  calls :: "call list"

definition made :: "call \<Rightarrow> 'w \<Rightarrow> 'w remote \<Rightarrow> 'w remote" where
  "made c w s = \<lparr>world = w, calls = calls s @ [c]\<rparr>"

definition environmentClient ::
  "'w Config \<Rightarrow> string \<Rightarrow> 'w remote \<Rightarrow> (string + 'w RancherClient) \<times> 'w remote" where
  "environmentClient meta env s =
     (case EnvironmentClient meta env (world s) of
        (r, w) \<Rightarrow> (r, made (CallEnvironmentClient env) w s))"

definition byId ::
  "'w RancherClient \<Rightarrow> string \<Rightarrow> 'w remote \<Rightarrow> (Host option \<times> string option) \<times> 'w remote" where
  "byId client i s =
     (case Host_ById client i (world s) of (r, w) \<Rightarrow> (r, made (CallById i) w s))"

definition hostList ::
  "'w RancherClient \<Rightarrow> 'w remote \<Rightarrow> (Host list option \<times> string option) \<times> 'w remote" where
  "hostList client s =
     (case Host_List client (world s) of (r, w) \<Rightarrow> (r, made CallList w s))"

definition actionDeactivate ::
  "'w RancherClient \<Rightarrow> Host \<Rightarrow> 'w remote \<Rightarrow> (Host option \<times> string option) \<times> 'w remote" where
  "actionDeactivate client h s =
     (case Host_ActionDeactivate client h (world s) of
        (r, w) \<Rightarrow> (r, made (CallActionDeactivate h) w s))"

definition hostDelete ::
  "'w RancherClient \<Rightarrow> Host \<Rightarrow> 'w remote \<Rightarrow> string option \<times> 'w remote" where
  "hostDelete client h s =
     (case Host_Delete client h (world s) of (r, w) \<Rightarrow> (r, made (CallDelete h) w s))"

definition clientUpdate ::
  "'w RancherClient \<Rightarrow> string \<Rightarrow> Host \<Rightarrow> UpdateData \<Rightarrow> 'w remote \<Rightarrow> string option \<times> 'w remote" where
  "clientUpdate client ty h data s =
     (case Update client ty h data (world s) of
        (r, w) \<Rightarrow> (r, made (CallUpdate ty h data) w s))"

section \<open>Read\<close>

text \<open>
  \<^verbatim>\<open>removed\<close> is a helper declared outside this file; the operations take it as
  the parameter \<open>removed\<close>.

  In \<^verbatim>\<open>resourceRancherHostRead\<close> the local \<^verbatim>\<open>labels\<close> and \<^verbatim>\<open>host.Labels\<close> are
  the same Go map, so the deletions through \<^verbatim>\<open>labels\<close> are deletions in
  \<^verbatim>\<open>host.Labels\<close>, which is what \<^verbatim>\<open>d.Set\<close> then stores.
\<close>

definition deleteLabels :: "labelmap \<Rightarrow> string list \<Rightarrow> labelmap" where
  "deleteLabels m ks = foldl (\<lambda>labels lbl. labels(lbl := None)) m ks"

definition resourceRancherHostRead ::
  "(string \<Rightarrow> bool) \<Rightarrow> ResourceData \<Rightarrow> 'w Config \<Rightarrow> 'w remote
     \<Rightarrow> (failure + unit) \<times> ResourceData \<times> 'w remote" where
  "resourceRancherHostRead removed d meta s =
     (case environmentClient meta (rd_environment_id d) s of
        (Inl err, s1) \<Rightarrow> (Inl (Error err), d, s1)
      | (Inr client, s1) \<Rightarrow>
          (case byId client (rd_id d) s1 of
             ((_, Some err), s2) \<Rightarrow> (Inl (Error err), d, s2)
           | ((None, None), s2) \<Rightarrow> (Inr (), d\<lparr>rd_id := ''''\<rparr>, s2)
           | ((Some host, None), s2) \<Rightarrow>
               if removed (State host) then (Inr (), d\<lparr>rd_id := ''''\<rparr>, s2)
               else
                 let d = d\<lparr>rd_description := Description host\<rparr>;
                     d = d\<lparr>rd_name := Name host\<rparr>;
                     d = d\<lparr>rd_hostname := Hostname host\<rparr>;
                     host = host\<lparr>Labels := deleteLabels (Labels host) roLabels\<rparr>;
                     d = d\<lparr>rd_labels := Labels host\<rparr>
                 in (Inr (), d, s2)))"

section \<open>Update\<close>

text \<open>
  \<^verbatim>\<open>d.Get("labels")\<close> hands out a map of its own, which the loop then writes to:
  each reserved key is bound to \<^verbatim>\<open>host.Labels[lbl]\<close>. With no nil check on
  \<^verbatim>\<open>host\<close>, the first \<^verbatim>\<open>host.Labels\<close> panics when the client returned no record.
\<close>

definition mergeLabels :: "labelmap \<Rightarrow> Host \<Rightarrow> string list \<Rightarrow> labelmap" where
  "mergeLabels m host ks = foldl (\<lambda>labels lbl. labels(lbl \<mapsto> index (Labels host) lbl)) m ks"

definition resourceRancherHostUpdate ::
  "(string \<Rightarrow> bool) \<Rightarrow> ResourceData \<Rightarrow> 'w Config \<Rightarrow> 'w remote
     \<Rightarrow> (failure + unit) \<times> ResourceData \<times> 'w remote" where
  "resourceRancherHostUpdate removed d meta s =
     (case environmentClient meta (rd_environment_id d) s of
        (Inl err, s1) \<Rightarrow> (Inl (Error err), d, s1)
      | (Inr client, s1) \<Rightarrow>
          let name = rd_name d;
              description = rd_description d;
              labels = rd_labels d
          in (case byId client (rd_id d) s1 of
                ((_, Some err), s2) \<Rightarrow> (Inl (Error err), d, s2)
              | ((None, None), s2) \<Rightarrow> (Inl NilDereference, d, s2)
              | ((Some host, None), s2) \<Rightarrow>
                  let labels = mergeLabels labels host roLabels;
                      data = \<lparr>data_name = name, data_description = description,
                              data_labels = labels\<rparr>
                  in (case clientUpdate client ''host'' host data s2 of
                        (Some err, s3) \<Rightarrow> (Inl (Error err), d, s3)
                      | (None, s3) \<Rightarrow> resourceRancherHostRead removed d meta s3)))"

section \<open>Polling\<close>

text \<open>
  A \<^verbatim>\<open>resource.StateRefreshFunc\<close> observes the remote side once: it yields a
  result (possibly nil) with a status, or an error, or it panics.
\<close>

type_synonym 'w StateRefreshFunc =
  "'w remote \<Rightarrow> (failure + Host option \<times> string) \<times> 'w remote"

text \<open>Go's \<^verbatim>\<open>time.Duration\<close> counts nanoseconds.\<close>

definition Second :: nat where
  "Second = 1000000000"

definition Minute :: nat where
  "Minute = 60 * Second"

record 'w StateChangeConf =
  Pending :: "string list"
  Target :: "string list"
  Refresh :: "'w StateRefreshFunc"
  Timeout :: nat
  Delay :: nat
  MinTimeout :: nat
  NotFoundChecks :: nat

definition findHost :: "'w RancherClient \<Rightarrow> string \<Rightarrow> 'w StateRefreshFunc" where
  "findHost client hostname s =
     (case hostList client s of
        ((None, _), s') \<Rightarrow> (Inl NilDereference, s')
      | ((Some hosts, _), s') \<Rightarrow>
          (case find (\<lambda>h. Hostname h = hostname) hosts of
             Some host \<Rightarrow> (Inr (Some host, State host), s')
           | None \<Rightarrow> (Inr (None, ''not found''), s')))"

definition HostStateRefreshFunc :: "'w RancherClient \<Rightarrow> string \<Rightarrow> 'w StateRefreshFunc" where
  "HostStateRefreshFunc client hostID s =
     (case byId client hostID s of
        ((_, Some err), s') \<Rightarrow> (Inl (Error err), s')
      | ((None, None), s') \<Rightarrow> (Inl NilDereference, s')
      | ((Some host, None), s') \<Rightarrow> (Inr (Some host, State host), s'))"

text \<open>
  Modelled from the spec: \<^verbatim>\<open>StateChangeConf.WaitForState\<close> belongs to the plugin SDK
  and is not part of this file. The spec describes it as a poll loop with a fixed delay,
  a minimum interval, a hard timeout and bounded not-found retries, which ends when
  the observed status is in the target set. Time is logical here: the first
  observation is made after \<open>Delay\<close>, the following ones \<open>MinTimeout\<close> apart, and
  \<open>rounds\<close> counts the observations that start before \<open>Timeout\<close> has elapsed. An
  observation without a result counts as not found; more than \<open>NotFoundChecks\<close> of
  them in a row (20 when the field is left zero) end the poll. A status that is
  neither a target nor pending ends the poll as well, and so does an error or a panic
  of the refresh function.
\<close>

definition rounds :: "'w StateChangeConf \<Rightarrow> nat" where
  "rounds conf =
     (if Timeout conf \<le> Delay conf then 0
      else (Timeout conf - Delay conf - 1) div max 1 (MinTimeout conf) + 1)"

definition notFoundChecks :: "'w StateChangeConf \<Rightarrow> nat" where
  "notFoundChecks conf = (if NotFoundChecks conf = 0 then 20 else NotFoundChecks conf)"

primrec poll ::
  "'w StateChangeConf \<Rightarrow> nat \<Rightarrow> nat \<Rightarrow> 'w remote \<Rightarrow> (failure + Host option) \<times> 'w remote" where
  "poll conf 0 notfoundTick s = (Inl (Error ''timeout while waiting for state''), s)"
| "poll conf (Suc n) notfoundTick s =
     (case Refresh conf s of
        (Inl f, s') \<Rightarrow> (Inl f, s')
      | (Inr (None, currentState), s') \<Rightarrow>
          if Suc notfoundTick > notFoundChecks conf
          then (Inl (Error ''could not find resource''), s')
          else poll conf n (Suc notfoundTick) s'
      | (Inr (Some res, currentState), s') \<Rightarrow>
          if currentState \<in> set (Target conf) then (Inr (Some res), s')
          else if currentState \<in> set (Pending conf) \<or> Pending conf = []
          then poll conf n 0 s'
          else (Inl (Error (''unexpected state '' @ currentState)), s'))"

definition WaitForState ::
  "'w StateChangeConf \<Rightarrow> 'w remote \<Rightarrow> (failure + Host option) \<times> 'w remote" where
  "WaitForState conf s = poll conf (rounds conf) 0 s"

text \<open>The remote side after \<open>n\<close> observations by a refresh function.\<close>

definition after :: "'w StateRefreshFunc \<Rightarrow> nat \<Rightarrow> 'w remote \<Rightarrow> 'w remote" where
  "after refresh n s = ((\<lambda>t. snd (refresh t)) ^^ n) s"

section \<open>Create\<close>

definition createConf :: "'w RancherClient \<Rightarrow> string \<Rightarrow> 'w StateChangeConf" where
  "createConf client hostname =
     \<lparr>Pending = [''active'', ''removed'', ''removing'', ''not found'', ''registering'',
                 ''activating''],
      Target = [''active'', ''disconnected''],
      Refresh = findHost client hostname,
      Timeout = 10 * Minute,
      Delay = 1 * Second,
      MinTimeout = 3 * Second,
      NotFoundChecks = 50\<rparr>"

definition resourceRancherHostCreate ::
  "(string \<Rightarrow> bool) \<Rightarrow> ResourceData \<Rightarrow> 'w Config \<Rightarrow> 'w remote
     \<Rightarrow> (failure + unit) \<times> ResourceData \<times> 'w remote" where
  "resourceRancherHostCreate removed d meta s =
     (case environmentClient meta (rd_environment_id d) s of
        (Inl err, s1) \<Rightarrow> (Inl (Error err), d, s1)
      | (Inr client, s1) \<Rightarrow>
          let hostname = rd_hostname d
          in (case WaitForState (createConf client hostname) s1 of
                (Inl (Error waitErr), s2) \<Rightarrow>
                  (Inl (Error (''Error waiting for host ('' @ hostname @ '') to be found: ''
                                 @ waitErr)), d, s2)
              | (Inl panic, s2) \<Rightarrow> (Inl panic, d, s2)
              | (Inr None, s2) \<Rightarrow> (Inl InterfaceConversion, d, s2)
              | (Inr (Some host), s2) \<Rightarrow>
                  resourceRancherHostUpdate removed (d\<lparr>rd_id := Id_host host\<rparr>) meta s2))"

section \<open>Delete\<close>

definition deactivateConf :: "'w RancherClient \<Rightarrow> string \<Rightarrow> 'w StateChangeConf" where
  "deactivateConf client id' =
     \<lparr>Pending = [''active'', ''inactive'', ''deactivating''],
      Target = [''inactive''],
      Refresh = HostStateRefreshFunc client id',
      Timeout = 10 * Minute,
      Delay = 1 * Second,
      MinTimeout = 3 * Second,
      NotFoundChecks = 0\<rparr>"

definition removeConf :: "'w RancherClient \<Rightarrow> string \<Rightarrow> 'w StateChangeConf" where
  "removeConf client id' =
     \<lparr>Pending = [''inactive'', ''removed'', ''removing''],
      Target = [''removed''],
      Refresh = HostStateRefreshFunc client id',
      Timeout = 10 * Minute,
      Delay = 1 * Second,
      MinTimeout = 3 * Second,
      NotFoundChecks = 0\<rparr>"

text \<open>The body of \<^verbatim>\<open>if host.State != "inactive"\<close>.\<close>

definition deactivate ::
  "'w RancherClient \<Rightarrow> string \<Rightarrow> Host \<Rightarrow> 'w remote \<Rightarrow> (failure + unit) \<times> 'w remote" where
  "deactivate client id' host s =
     (case actionDeactivate client host s of
        ((_, Some err), s1) \<Rightarrow> (Inl (Error (''Error deactivating Host: '' @ err)), s1)
      | ((_, None), s1) \<Rightarrow>
          (case WaitForState (deactivateConf client id') s1 of
             (Inl (Error waitErr), s2) \<Rightarrow>
               (Inl (Error (''Error waiting for host ('' @ id' @ '') to be removed: ''
                              @ waitErr)), s2)
           | (Inl panic, s2) \<Rightarrow> (Inl panic, s2)
           | (Inr _, s2) \<Rightarrow> (Inr (), s2)))"

definition resourceRancherHostDelete ::
  "ResourceData \<Rightarrow> 'w Config \<Rightarrow> 'w remote \<Rightarrow> (failure + unit) \<times> ResourceData \<times> 'w remote" where
  "resourceRancherHostDelete d meta s =
     (let id' = rd_id d
      in case environmentClient meta (rd_environment_id d) s of
           (Inl err, s1) \<Rightarrow> (Inl (Error err), d, s1)
         | (Inr client, s1) \<Rightarrow>
             (case byId client id' s1 of
                ((_, Some err), s2) \<Rightarrow> (Inl (Error err), d, s2)
              | ((None, None), s2) \<Rightarrow> (Inl NilDereference, d, s2)
              | ((Some host, None), s2) \<Rightarrow>
                  (case (if State host \<noteq> ''inactive'' then deactivate client id' host s2
                         else (Inr (), s2)) of
                     (Inl f, s3) \<Rightarrow> (Inl f, d, s3)
                   | (Inr _, s3) \<Rightarrow>
                       (case hostDelete client host s3 of
                          (Some err, s4) \<Rightarrow>
                            (Inl (Error (''Error deleting Host: '' @ err)), d, s4)
                        | (None, s4) \<Rightarrow>
                            (case WaitForState (removeConf client id') s4 of
                               (Inl (Error waitErr), s5) \<Rightarrow>
                                 (Inl (Error (''Error waiting for host ('' @ id'
                                                @ '') to be removed: '' @ waitErr)), d, s5)
                             | (Inl panic, s5) \<Rightarrow> (Inl panic, d, s5)
                             | (Inr _, s5) \<Rightarrow> (Inr (), d\<lparr>rd_id := ''''\<rparr>, s5))))))"

text \<open>What follows the deactivation step of a delete.\<close>

definition removal ::
  "'w RancherClient \<Rightarrow> ResourceData \<Rightarrow> Host \<Rightarrow> 'w remote
     \<Rightarrow> (failure + unit) \<times> ResourceData \<times> 'w remote" where
  "removal client d host s3 =
     (case hostDelete client host s3 of
        (Some err, s4) \<Rightarrow> (Inl (Error (''Error deleting Host: '' @ err)), d, s4)
      | (None, s4) \<Rightarrow>
          (case WaitForState (removeConf client (rd_id d)) s4 of
             (Inl (Error waitErr), s5) \<Rightarrow>
               (Inl (Error (''Error waiting for host ('' @ rd_id d
                              @ '') to be removed: '' @ waitErr)), d, s5)
           | (Inl panic, s5) \<Rightarrow> (Inl panic, d, s5)
           | (Inr _, s5) \<Rightarrow> (Inr (), d\<lparr>rd_id := ''''\<rparr>, s5)))"

text \<open>The calls that change the remote record's attributes.\<close>

fun isUpdate :: "call \<Rightarrow> bool" where
  "isUpdate (CallUpdate ty h data) = True"
| "isUpdate c = False"

section \<open>A scripted remote\<close>

text \<open>
  For running the operations on concrete inputs: the world is the list of answers the
  next fetches (by id, or by listing) will get, one answer consumed by each fetch; the
  other calls answer with a fixed error or with none.
\<close>

type_synonym script = "(Host option \<times> string option) list"

definition scripted :: "string option \<Rightarrow> string option \<Rightarrow> string option \<Rightarrow> script RancherClient" where
  "scripted deactivateErr deleteErr updateErr =
     \<lparr>Host_ById = (\<lambda>i w. case w of [] \<Rightarrow> ((None, None), []) | r # rs \<Rightarrow> (r, rs)),
      Host_List = (\<lambda>w. case w of
                          [] \<Rightarrow> ((Some [], None), [])
                        | (None, e) # rs \<Rightarrow> ((Some [], e), rs)
                        | (Some h, e) # rs \<Rightarrow> ((Some [h], e), rs)),
      Host_ActionDeactivate = (\<lambda>h w. ((None, deactivateErr), w)),
      Host_Delete = (\<lambda>h w. (deleteErr, w)),
      Update = (\<lambda>ty h data w. (updateErr, w))\<rparr>"

text \<open>A remote on which nothing ever changes: every fetch finds the same host.\<close>

definition steady :: "Host \<Rightarrow> unit RancherClient" where
  "steady h =
     \<lparr>Host_ById = (\<lambda>i w. ((Some h, None), w)),
      Host_List = (\<lambda>w. ((Some [h], None), w)),
      Host_ActionDeactivate = (\<lambda>h' w. ((None, None), w)),
      Host_Delete = (\<lambda>h' w. (None, w)),
      Update = (\<lambda>ty h' data w. (None, w))\<rparr>"

definition config :: "'w RancherClient \<Rightarrow> 'w Config" where
  "config client = \<lparr>EnvironmentClient = (\<lambda>env w. (Inr client, w))\<rparr>"

definition start :: "'w \<Rightarrow> 'w remote" where
  "start w = \<lparr>world = w, calls = []\<rparr>"

definition host1 :: "string \<Rightarrow> Host" where
  "host1 st =
     \<lparr>Id_host = ''1h1'', Name = ''node'', Description = ''a node'', Hostname = ''node.example'',
      State = st,
      Labels = [''role'' \<mapsto> VStr ''db'', ''io.rancher.host.kvm'' \<mapsto> VStr ''true'']\<rparr>"

definition d1 :: ResourceData where
  "d1 =
     \<lparr>rd_id = ''1h1'', rd_name = ''n'', rd_description = '''', rd_environment_id = ''1a5'',
      rd_hostname = ''node.example'',
      rd_labels = [''io.rancher.host.kvm'' \<mapsto> VStr ''false'', ''zone'' \<mapsto> VStr ''a'']\<rparr>"

text \<open>Modelled from the spec: \<^verbatim>\<open>removed\<close> is declared outside this file; the spec
  speaks of a record whose state is removed.\<close>

definition removed_spec :: "string \<Rightarrow> bool" where
  "removed_spec state = (state = ''removed'')"

section \<open>Auxiliary facts\<close>

lemmas client_defs = environmentClient_def byId_def hostList_def actionDeactivate_def
  hostDelete_def clientUpdate_def made_def
lemmas fixture_defs = scripted_def steady_def config_def start_def host1_def d1_def removed_spec_def

lemma poll_numeral:
  "poll conf (numeral k) notfoundTick s =
     (case Refresh conf s of
        (Inl f, s') \<Rightarrow> (Inl f, s')
      | (Inr (None, currentState), s') \<Rightarrow>
          if Suc notfoundTick > notFoundChecks conf
          then (Inl (Error ''could not find resource''), s')
          else poll conf (pred_numeral k) (Suc notfoundTick) s'
      | (Inr (Some res, currentState), s') \<Rightarrow>
          if currentState \<in> set (Target conf) then (Inr (Some res), s')
          else if currentState \<in> set (Pending conf) \<or> Pending conf = []
          then poll conf (pred_numeral k) 0 s'
          else (Inl (Error (''unexpected state '' @ currentState)), s'))"
  by (simp add: numeral_eq_Suc)



lemma foldl_merge:
  "foldl (\<lambda>labels lbl. labels(lbl \<mapsto> f lbl)) m ks k = (if k \<in> set ks then Some (f k) else m k)"
  by (induction ks arbitrary: m) auto

lemma mergeLabels_apply:
  "mergeLabels m host ks k = (if k \<in> set ks then Some (index (Labels host) k) else m k)"
  by (simp add: mergeLabels_def foldl_merge)

lemma read_found:
  assumes "environmentClient meta (rd_environment_id d) s = (Inr client, s1)"
    and "byId client (rd_id d) s1 = ((Some host, None), s2)"
    and "\<not> removed (State host)"
  shows "resourceRancherHostRead removed d meta s =
           (Inr (), d\<lparr>rd_description := Description host, rd_name := Name host,
                      rd_hostname := Hostname host,
                      rd_labels := deleteLabels (Labels host) roLabels\<rparr>, s2)"
  using assms by (simp add: resourceRancherHostRead_def)

lemma read_absent:
  assumes "environmentClient meta (rd_environment_id d) s = (Inr client, s1)"
    and "byId client (rd_id d) s1 = ((h, None), s2)"
    and "h = None \<or> (\<exists>host. h = Some host \<and> removed (State host))"
  shows "resourceRancherHostRead removed d meta s = (Inr (), d\<lparr>rd_id := ''''\<rparr>, s2)"
  using assms by (auto simp add: resourceRancherHostRead_def)

lemma read_not_panic: "fst (resourceRancherHostRead removed d meta s) \<noteq> Inl NilDereference"
  by (simp add: resourceRancherHostRead_def Let_def split: prod.splits sum.splits option.splits)

lemma read_calls: "\<exists>rest. calls (snd (snd (resourceRancherHostRead removed d meta s))) = calls s @ rest"
  by (auto simp add: resourceRancherHostRead_def Let_def client_defs split: prod.splits sum.splits option.splits)

section \<open>The schema\<close>

text \<open>
  C9. The configuration schema has exactly the fields id, name, description,
  environment_id, hostname and labels; id is a computed string, hostname a required
  string, and labels a map.
\<close>

theorem schema_fields:
  "map fst resourceRancherHost_Schema =
     [''id'', ''name'', ''description'', ''environment_id'', ''hostname'', ''labels'']
   \<and> map_of resourceRancherHost_Schema ''id'' = Some (schema0\<lparr>Type := TypeString, Computed := True\<rparr>)
   \<and> map_of resourceRancherHost_Schema ''hostname'' = Some (schema0\<lparr>Type := TypeString, Required := True\<rparr>)
   \<and> map_of resourceRancherHost_Schema ''labels'' = Some (schema0\<lparr>Type := TypeMap, Optional := True\<rparr>)"
  by (simp add: resourceRancherHost_Schema_def)

section \<open>Reading\<close>



lemma scripted_env:
  "environmentClient (config c) env (start w) = (Inr c, \<lparr>world = w, calls = [CallEnvironmentClient env]\<rparr>)"
  by (simp add: client_defs config_def start_def)

lemma scripted_byId_Cons:
  "byId (scripted a b c) i \<lparr>world = r # rs, calls = cs\<rparr> = (r, \<lparr>world = rs, calls = cs @ [CallById i]\<rparr>)"
  by (simp add: client_defs scripted_def)

lemma scripted_byId_Nil:
  "byId (scripted a b c) i \<lparr>world = [], calls = cs\<rparr> = ((None, None), \<lparr>world = [], calls = cs @ [CallById i]\<rparr>)"
  by (simp add: client_defs scripted_def)

text \<open>
  C10. A read of an existing host that is not removed writes the description, name,
  hostname and labels of the local state and nothing else: the id and the
  environment id are as before.
\<close>

theorem read_frame:
  assumes "environmentClient meta (rd_environment_id d) s = (Inr client, s1)"
    and "byId client (rd_id d) s1 = ((Some host, None), s2)"
    and "\<not> removed (State host)"
  shows "fst (snd (resourceRancherHostRead removed d meta s))
           = d\<lparr>rd_description := Description host, rd_name := Name host,
                rd_hostname := Hostname host,
                rd_labels := deleteLabels (Labels host) roLabels\<rparr>
       \<and> rd_id (fst (snd (resourceRancherHostRead removed d meta s))) = rd_id d
       \<and> rd_environment_id (fst (snd (resourceRancherHostRead removed d meta s)))
           = rd_environment_id d"
  using read_found [where removed = removed, OF assms] by simp

theorem read_frame_witness:
  "rd_id (fst (snd (resourceRancherHostRead removed_spec d1 (config (scripted None None None))
                      (start [(Some (host1 ''active''), None)])))) = ''1h1''
   \<and> rd_environment_id (fst (snd (resourceRancherHostRead removed_spec d1
                      (config (scripted None None None))
                      (start [(Some (host1 ''active''), None)])))) = ''1a5''
   \<and> rd_name (fst (snd (resourceRancherHostRead removed_spec d1
                      (config (scripted None None None))
                      (start [(Some (host1 ''active''), None)])))) = ''node''"
proof -
  have r: "\<not> removed_spec (State (host1 ''active''))"
    by (simp add: removed_spec_def host1_def)
  have b: "byId (scripted None None None) (rd_id d1)
             \<lparr>world = [(Some (host1 ''active''), None)],
                calls = [CallEnvironmentClient (rd_environment_id d1)]\<rparr>
           = ((Some (host1 ''active''), None),
              \<lparr>world = [], calls = [CallEnvironmentClient (rd_environment_id d1)] @ [CallById (rd_id d1)]\<rparr>)"
    by (rule scripted_byId_Cons)
  from read_frame [where removed = removed_spec, OF scripted_env b r]
  show ?thesis by (auto simp add: d1_def host1_def)
qed

text \<open>
  C3. A missing or removed remote record is not an error: the operation clears the
  local identity and returns success. The read does so (\<open>read_absent\<close>). The delete
  and the update do not: they use the fetched record without the nil check the read
  has, so on a fetch that returns no record and no error they dereference nil, and the
  delete has no check for a removed record either, so it goes on to deactivate the host
  and returns that call's error with the id kept. Below, the three operations are run
  on the same two answers of the client: no record, and a record whose state is
  removed.
\<close>

theorem delete_missing_or_removed_host_fails:
  "resourceRancherHostRead removed_spec d1 (config (scripted None None None)) (start [])
     = (Inr (), d1\<lparr>rd_id := ''''\<rparr>,
        \<lparr>world = [], calls = [CallEnvironmentClient ''1a5'', CallById ''1h1'']\<rparr>)
   \<and> resourceRancherHostDelete d1 (config (scripted None None None)) (start [])
     = (Inl NilDereference, d1,
        \<lparr>world = [], calls = [CallEnvironmentClient ''1a5'', CallById ''1h1'']\<rparr>)
   \<and> resourceRancherHostUpdate removed_spec d1 (config (scripted None None None)) (start [])
     = (Inl NilDereference, d1,
        \<lparr>world = [], calls = [CallEnvironmentClient ''1a5'', CallById ''1h1'']\<rparr>)
   \<and> resourceRancherHostRead removed_spec d1 (config (scripted (Some ''gone'') None None))
         (start [(Some (host1 ''removed''), None)])
     = (Inr (), d1\<lparr>rd_id := ''''\<rparr>,
        \<lparr>world = [], calls = [CallEnvironmentClient ''1a5'', CallById ''1h1'']\<rparr>)
   \<and> resourceRancherHostDelete d1 (config (scripted (Some ''gone'') None None))
         (start [(Some (host1 ''removed''), None)])
     = (Inl (Error ''Error deactivating Host: gone''), d1,
        \<lparr>world = [],
           calls = [CallEnvironmentClient ''1a5'', CallById ''1h1'',
                    CallActionDeactivate (host1 ''removed'')]\<rparr>)"
proof (intro conjI)
  show "resourceRancherHostRead removed_spec d1 (config (scripted None None None)) (start [])
     = (Inr (), d1\<lparr>rd_id := ''''\<rparr>,
        \<lparr>world = [], calls = [CallEnvironmentClient ''1a5'', CallById ''1h1'']\<rparr>)"
    by (simp add: resourceRancherHostRead_def client_defs fixture_defs)
  show "resourceRancherHostDelete d1 (config (scripted None None None)) (start [])
     = (Inl NilDereference, d1,
        \<lparr>world = [], calls = [CallEnvironmentClient ''1a5'', CallById ''1h1'']\<rparr>)"
    by (simp add: resourceRancherHostDelete_def client_defs fixture_defs)
  show "resourceRancherHostUpdate removed_spec d1 (config (scripted None None None)) (start [])
     = (Inl NilDereference, d1,
        \<lparr>world = [], calls = [CallEnvironmentClient ''1a5'', CallById ''1h1'']\<rparr>)"
    by (simp add: resourceRancherHostUpdate_def client_defs fixture_defs)
  show "resourceRancherHostRead removed_spec d1 (config (scripted (Some ''gone'') None None))
         (start [(Some (host1 ''removed''), None)])
     = (Inr (), d1\<lparr>rd_id := ''''\<rparr>,
        \<lparr>world = [], calls = [CallEnvironmentClient ''1a5'', CallById ''1h1'']\<rparr>)"
    by (simp add: resourceRancherHostRead_def client_defs fixture_defs)
  show "resourceRancherHostDelete d1 (config (scripted (Some ''gone'') None None))
         (start [(Some (host1 ''removed''), None)])
     = (Inl (Error ''Error deactivating Host: gone''), d1,
        \<lparr>world = [],
           calls = [CallEnvironmentClient ''1a5'', CallById ''1h1'',
                    CallActionDeactivate (host1 ''removed'')]\<rparr>)"
    by (simp add: resourceRancherHostDelete_def deactivate_def client_defs fixture_defs)
qed

subsection \<open>The operations, step by step\<close>

lemma refresh_err:
  "byId client i s = ((h, Some err), s') \<Longrightarrow> HostStateRefreshFunc client i s = (Inl (Error err), s')"
  by (cases h) (simp_all add: HostStateRefreshFunc_def)

lemma refresh_nil:
  "byId client i s = ((None, None), s') \<Longrightarrow> HostStateRefreshFunc client i s = (Inl NilDereference, s')"
  by (simp add: HostStateRefreshFunc_def)

lemma refresh_found:
  "byId client i s = ((Some host, None), s')
     \<Longrightarrow> HostStateRefreshFunc client i s = (Inr (Some host, State host), s')"
  by (simp add: HostStateRefreshFunc_def)

lemma read_env_err:
  "environmentClient meta (rd_environment_id d) s = (Inl err, s1)
     \<Longrightarrow> resourceRancherHostRead removed d meta s = (Inl (Error err), d, s1)"
  by (simp add: resourceRancherHostRead_def)

lemma read_byId_err:
  "environmentClient meta (rd_environment_id d) s = (Inr client, s1)
     \<Longrightarrow> byId client (rd_id d) s1 = ((h, Some err), s2)
     \<Longrightarrow> resourceRancherHostRead removed d meta s = (Inl (Error err), d, s2)"
  by (cases h) (simp_all add: resourceRancherHostRead_def)

lemma update_env_err:
  "environmentClient meta (rd_environment_id d) s = (Inl err, s1)
     \<Longrightarrow> resourceRancherHostUpdate removed d meta s = (Inl (Error err), d, s1)"
  by (simp add: resourceRancherHostUpdate_def)

lemma update_byId_err:
  "environmentClient meta (rd_environment_id d) s = (Inr client, s1)
     \<Longrightarrow> byId client (rd_id d) s1 = ((h, Some err), s2)
     \<Longrightarrow> resourceRancherHostUpdate removed d meta s = (Inl (Error err), d, s2)"
  by (cases h) (simp_all add: resourceRancherHostUpdate_def)

lemma update_nil:
  "environmentClient meta (rd_environment_id d) s = (Inr client, s1)
     \<Longrightarrow> byId client (rd_id d) s1 = ((None, None), s2)
     \<Longrightarrow> resourceRancherHostUpdate removed d meta s = (Inl NilDereference, d, s2)"
  by (simp add: resourceRancherHostUpdate_def)

lemma update_found:
  "environmentClient meta (rd_environment_id d) s = (Inr client, s1)
     \<Longrightarrow> byId client (rd_id d) s1 = ((Some host, None), s2)
     \<Longrightarrow> resourceRancherHostUpdate removed d meta s =
           (case clientUpdate client ''host'' host
                   \<lparr>data_name = rd_name d, data_description = rd_description d,
                      data_labels = mergeLabels (rd_labels d) host roLabels\<rparr> s2 of
              (Some err, s3) \<Rightarrow> (Inl (Error err), d, s3)
            | (None, s3) \<Rightarrow> resourceRancherHostRead removed d meta s3)"
  by (simp add: resourceRancherHostUpdate_def)

lemma deactivate_err:
  "actionDeactivate client host s = ((h, Some err), s1)
     \<Longrightarrow> deactivate client i host s = (Inl (Error (''Error deactivating Host: '' @ err)), s1)"
  by (simp add: deactivate_def)

lemma deactivate_wait:
  "actionDeactivate client host s = ((h, None), s1)
     \<Longrightarrow> deactivate client i host s =
           (case WaitForState (deactivateConf client i) s1 of
              (Inl (Error waitErr), s2) \<Rightarrow>
                (Inl (Error (''Error waiting for host ('' @ i @ '') to be removed: '' @ waitErr)), s2)
            | (Inl panic, s2) \<Rightarrow> (Inl panic, s2)
            | (Inr _, s2) \<Rightarrow> (Inr (), s2))"
  by (simp add: deactivate_def)

lemma delete_env_err:
  "environmentClient meta (rd_environment_id d) s = (Inl err, s1)
     \<Longrightarrow> resourceRancherHostDelete d meta s = (Inl (Error err), d, s1)"
  by (simp add: resourceRancherHostDelete_def)

lemma delete_byId_err:
  "environmentClient meta (rd_environment_id d) s = (Inr client, s1)
     \<Longrightarrow> byId client (rd_id d) s1 = ((h, Some err), s2)
     \<Longrightarrow> resourceRancherHostDelete d meta s = (Inl (Error err), d, s2)"
  by (cases h) (simp_all add: resourceRancherHostDelete_def)

lemma delete_nil:
  "environmentClient meta (rd_environment_id d) s = (Inr client, s1)
     \<Longrightarrow> byId client (rd_id d) s1 = ((None, None), s2)
     \<Longrightarrow> resourceRancherHostDelete d meta s = (Inl NilDereference, d, s2)"
  by (simp add: resourceRancherHostDelete_def)

lemma delete_found:
  "environmentClient meta (rd_environment_id d) s = (Inr client, s1)
     \<Longrightarrow> byId client (rd_id d) s1 = ((Some host, None), s2)
     \<Longrightarrow> resourceRancherHostDelete d meta s =
           (case (if State host \<noteq> ''inactive'' then deactivate client (rd_id d) host s2
                  else (Inr (), s2)) of
              (Inl f, s3) \<Rightarrow> (Inl f, d, s3)
            | (Inr _, s3) \<Rightarrow> removal client d host s3)"
  unfolding resourceRancherHostDelete_def removal_def Let_def by simp

subsection \<open>Where a nil dereference can come from\<close>

lemma poll_not_nil:
  assumes "\<And>s. fst (Refresh conf s) \<noteq> Inl NilDereference"
  shows "fst (poll conf n nf s) \<noteq> Inl NilDereference"
proof (induction n arbitrary: nf s)
  case 0
  show ?case by simp
next
  case (Suc n)
  obtain r s' where r: "Refresh conf s = (r, s')" by (cases "Refresh conf s")
  with assms [of s] have "r \<noteq> Inl NilDereference" by simp
  with r Suc.IH show ?case
    by (auto split: sum.splits option.splits)
qed

lemma refresh_not_nil:
  assumes "\<And>i w. fst (Host_ById client i w) \<noteq> (None, None)"
  shows "fst (HostStateRefreshFunc client hostID s) \<noteq> Inl NilDereference"
proof -
  obtain h e s' where b: "byId client hostID s = ((h, e), s')"
    by (cases "byId client hostID s") auto
  with assms [of hostID "world s"] have ne: "(h, e) \<noteq> (None, None)"
    by (auto simp add: byId_def split: prod.splits)
  show ?thesis
  proof (cases e)
    case (Some err)
    with b show ?thesis by (simp add: refresh_err)
  next
    case None
    with ne obtain host where "h = Some host" by (cases h) auto
    with b None show ?thesis by (simp add: refresh_found)
  qed
qed

lemma wait_not_nil:
  assumes "\<And>i w. fst (Host_ById client i w) \<noteq> (None, None)"
    and "Refresh conf = HostStateRefreshFunc client hostID"
  shows "WaitForState conf s \<noteq> (Inl NilDereference, s')"
proof -
  have "fst (poll conf (rounds conf) 0 s) \<noteq> Inl NilDereference"
    by (rule poll_not_nil) (simp add: assms(2) refresh_not_nil [OF assms(1)])
  then show ?thesis by (auto simp add: WaitForState_def)
qed

lemma deactivate_not_nil:
  assumes c: "\<And>i w. fst (Host_ById client i w) \<noteq> (None, None)"
  shows "deactivate client i host s \<noteq> (Inl NilDereference, s')"
proof -
  obtain h e s1 where a: "actionDeactivate client host s = ((h, e), s1)"
    by (cases "actionDeactivate client host s") auto
  have w: "WaitForState (deactivateConf client i) s1 \<noteq> (Inl NilDereference, t)" for t
    by (rule wait_not_nil [OF c]) (simp add: deactivateConf_def)
  show ?thesis
  proof (cases e)
    case (Some err)
    with a show ?thesis by (simp add: deactivate_err)
  next
    case None
    with a w show ?thesis
      by (auto simp add: deactivate_wait split: prod.splits sum.splits failure.splits)
  qed
qed

lemma removal_not_nil:
  assumes c: "\<And>i w. fst (Host_ById client i w) \<noteq> (None, None)"
  shows "fst (removal client d host s) \<noteq> Inl NilDereference"
proof -
  have w: "WaitForState (removeConf client (rd_id d)) t \<noteq> (Inl NilDereference, t')" for t t'
    by (rule wait_not_nil [OF c]) (simp add: removeConf_def)
  then show ?thesis
    by (auto simp add: removal_def split: prod.splits sum.splits failure.splits option.splits)
qed

lemma env_client:
  "environmentClient meta env s = (Inr client, s1)
     \<Longrightarrow> \<exists>w'. EnvironmentClient meta env (world s) = (Inr client, w')"
  by (auto simp add: environmentClient_def split: prod.splits)

lemma update_not_nil:
  assumes "\<And>env w c w' i v. EnvironmentClient meta env w = (Inr c, w')
             \<Longrightarrow> fst (Host_ById c i v) \<noteq> (None, None)"
  shows "fst (resourceRancherHostUpdate removed d meta s) \<noteq> Inl NilDereference"
proof -
  obtain r s1 where env: "environmentClient meta (rd_environment_id d) s = (r, s1)"
    by (cases "environmentClient meta (rd_environment_id d) s")
  show ?thesis
  proof (cases r)
    case (Inl e)
    with env show ?thesis by (simp add: update_env_err)
  next
    case (Inr client)
    with env env_client assms have c: "\<And>i v. fst (Host_ById client i v) \<noteq> (None, None)"
      by blast
    obtain h e s2 where b: "byId client (rd_id d) s1 = ((h, e), s2)"
      by (cases "byId client (rd_id d) s1") auto
    with c [of "rd_id d" "world s1"] have ne: "(h, e) \<noteq> (None, None)"
      by (auto simp add: byId_def split: prod.splits)
    show ?thesis
    proof (cases e)
      case (Some err)
      with env Inr b show ?thesis by (simp add: update_byId_err)
    next
      case None
      with ne obtain host where "h = Some host" by (cases h) auto
      with env Inr b None read_not_panic [of removed d meta] show ?thesis
        by (auto simp add: update_found split: prod.splits option.splits)
    qed
  qed
qed

lemma delete_not_nil:
  assumes "\<And>env w c w' i v. EnvironmentClient meta env w = (Inr c, w')
             \<Longrightarrow> fst (Host_ById c i v) \<noteq> (None, None)"
  shows "fst (resourceRancherHostDelete d meta s) \<noteq> Inl NilDereference"
proof -
  obtain r s1 where env: "environmentClient meta (rd_environment_id d) s = (r, s1)"
    by (cases "environmentClient meta (rd_environment_id d) s")
  show ?thesis
  proof (cases r)
    case (Inl e)
    with env show ?thesis by (simp add: delete_env_err)
  next
    case (Inr client)
    with env env_client assms have c: "\<And>i v. fst (Host_ById client i v) \<noteq> (None, None)"
      by blast
    obtain h e s2 where b: "byId client (rd_id d) s1 = ((h, e), s2)"
      by (cases "byId client (rd_id d) s1") auto
    with c [of "rd_id d" "world s1"] have ne: "(h, e) \<noteq> (None, None)"
      by (auto simp add: byId_def split: prod.splits)
    show ?thesis
    proof (cases e)
      case (Some err)
      with env Inr b show ?thesis by (simp add: delete_byId_err)
    next
      case None
      with ne obtain host where "h = Some host" by (cases h) auto
      with env Inr b None deactivate_not_nil [OF c, of "rd_id d" host s2]
        removal_not_nil [OF c, of d host]
      show ?thesis
        by (auto simp add: delete_found split: prod.splits sum.splits if_splits)
    qed
  qed
qed

text \<open>
  C8. Update, delete and the closure of \<^verbatim>\<open>HostStateRefreshFunc\<close> use the record
  fetched by id without a nil check. If every fetch by id that returns no error returns
  a record, none of them dereferences nil; if a fetch returns no record and no error,
  each of them ends in the nil dereference, not in a not-found result.
\<close>

theorem fetch_by_id_without_nil_check:
  "((\<forall>env w c w'. EnvironmentClient meta env w = (Inr c, w')
        \<longrightarrow> (\<forall>i v. fst (Host_ById c i v) \<noteq> (None, None)))
      \<longrightarrow> fst (resourceRancherHostUpdate removed d meta s) \<noteq> Inl NilDereference
          \<and> fst (resourceRancherHostDelete d meta s) \<noteq> Inl NilDereference)
   \<and> ((\<forall>i v. fst (Host_ById client i v) \<noteq> (None, None))
      \<longrightarrow> fst (HostStateRefreshFunc client hostID s1) \<noteq> Inl NilDereference)
   \<and> (environmentClient meta (rd_environment_id d) s = (Inr client, s1)
        \<and> byId client (rd_id d) s1 = ((None, None), s2)
      \<longrightarrow> resourceRancherHostUpdate removed d meta s = (Inl NilDereference, d, s2)
          \<and> resourceRancherHostDelete d meta s = (Inl NilDereference, d, s2)
          \<and> HostStateRefreshFunc client (rd_id d) s1 = (Inl NilDereference, s2))"
proof (intro conjI impI)
  assume a: "\<forall>env w c w'. EnvironmentClient meta env w = (Inr c, w')
        \<longrightarrow> (\<forall>i v. fst (Host_ById c i v) \<noteq> (None, None))"
  then show "fst (resourceRancherHostUpdate removed d meta s) \<noteq> Inl NilDereference"
    by (intro update_not_nil) blast
  from a show "fst (resourceRancherHostDelete d meta s) \<noteq> Inl NilDereference"
    by (intro delete_not_nil) blast
next
  assume "\<forall>i v. fst (Host_ById client i v) \<noteq> (None, None)"
  then show "fst (HostStateRefreshFunc client hostID s1) \<noteq> Inl NilDereference"
    by (intro refresh_not_nil) blast
next
  assume a: "environmentClient meta (rd_environment_id d) s = (Inr client, s1)
        \<and> byId client (rd_id d) s1 = ((None, None), s2)"
  then show "resourceRancherHostUpdate removed d meta s = (Inl NilDereference, d, s2)"
    by (simp add: update_nil)
  from a show "resourceRancherHostDelete d meta s = (Inl NilDereference, d, s2)"
    by (simp add: delete_nil)
  from a show "HostStateRefreshFunc client (rd_id d) s1 = (Inl NilDereference, s2)"
    by (simp add: refresh_nil)
qed

theorem fetch_by_id_without_nil_check_witness:
  "fst (resourceRancherHostUpdate removed_spec d1 (config (steady (host1 ''active''))) (start ()))
     \<noteq> Inl NilDereference
   \<and> fst (resourceRancherHostDelete d1 (config (steady (host1 ''active''))) (start ()))
     \<noteq> Inl NilDereference
   \<and> fst (HostStateRefreshFunc (steady (host1 ''active'')) ''1h1'' (start ()))
     \<noteq> Inl NilDereference
   \<and> fst (resourceRancherHostUpdate removed_spec d1 (config (scripted None None None)) (start []))
     = Inl NilDereference
   \<and> fst (resourceRancherHostDelete d1 (config (scripted None None None)) (start []))
     = Inl NilDereference
   \<and> fst (HostStateRefreshFunc (scripted None None None) ''1h1''
            \<lparr>world = [], calls = [CallEnvironmentClient ''1a5'']\<rparr>)
     = Inl NilDereference"
proof -
  let ?h = "host1 ''active''"
  have p: "\<forall>env w c w'. EnvironmentClient (config (steady ?h)) env w = (Inr c, w')
        \<longrightarrow> (\<forall>i v. fst (Host_ById c i v) \<noteq> (None, None))"
    by (auto simp add: config_def steady_def)
  have q: "\<forall>i v. fst (Host_ById (steady ?h) i v) \<noteq> (None, None)"
    by (simp add: steady_def)
  have b: "byId (scripted None None None) (rd_id d1)
              \<lparr>world = [], calls = [CallEnvironmentClient (rd_environment_id d1)]\<rparr>
            = ((None, None),
               \<lparr>world = [], calls = [CallEnvironmentClient (rd_environment_id d1)] @ [CallById (rd_id d1)]\<rparr>)"
    by (rule scripted_byId_Nil)
  from p q fetch_by_id_without_nil_check [of "config (steady ?h)" removed_spec d1 "start ()"
      "steady ?h" "''1h1''" "start ()"]
  have 1: "fst (resourceRancherHostUpdate removed_spec d1 (config (steady ?h)) (start ()))
             \<noteq> Inl NilDereference
           \<and> fst (resourceRancherHostDelete d1 (config (steady ?h)) (start ()))
             \<noteq> Inl NilDereference
           \<and> fst (HostStateRefreshFunc (steady ?h) ''1h1'' (start ())) \<noteq> Inl NilDereference"
    by blast
  from scripted_env [of "scripted None None None" "rd_environment_id d1" "[]"] b
    fetch_by_id_without_nil_check [of "config (scripted None None None)" removed_spec d1
      "start []" "scripted None None None" "''1h1''"
      "\<lparr>world = [], calls = [CallEnvironmentClient (rd_environment_id d1)]\<rparr>"
      "\<lparr>world = [], calls = [CallEnvironmentClient (rd_environment_id d1)] @ [CallById (rd_id d1)]\<rparr>"]
  have 2: "resourceRancherHostUpdate removed_spec d1 (config (scripted None None None)) (start [])
             = (Inl NilDereference, d1,
                \<lparr>world = [], calls = [CallEnvironmentClient (rd_environment_id d1)] @ [CallById (rd_id d1)]\<rparr>)
          \<and> resourceRancherHostDelete d1 (config (scripted None None None)) (start [])
             = (Inl NilDereference, d1,
                \<lparr>world = [], calls = [CallEnvironmentClient (rd_environment_id d1)] @ [CallById (rd_id d1)]\<rparr>)
          \<and> HostStateRefreshFunc (scripted None None None) (rd_id d1)
               \<lparr>world = [], calls = [CallEnvironmentClient (rd_environment_id d1)]\<rparr>
             = (Inl NilDereference,
                \<lparr>world = [], calls = [CallEnvironmentClient (rd_environment_id d1)] @ [CallById (rd_id d1)]\<rparr>)"
    by blast
  from 1 2 show ?thesis by (simp add: d1_def)
qed

subsection \<open>The calls an operation makes\<close>

lemma read_calls_no_update:
  "\<exists>rest. calls (snd (snd (resourceRancherHostRead removed d meta s))) = calls s @ rest
          \<and> filter isUpdate rest = []"
  by (auto simp add: resourceRancherHostRead_def Let_def client_defs
           split: prod.splits sum.splits option.splits)

lemma clientUpdate_calls:
  "clientUpdate client ty h data s = (r, s') \<Longrightarrow> calls s' = calls s @ [CallUpdate ty h data]"
  by (auto simp add: clientUpdate_def made_def split: prod.splits)

text \<open>
  C2. When an update has fetched the current remote record, the one update call it
  makes carries a label map in which every reserved key is bound to what indexing the
  remote record's labels at that key gives (nil when the record has no such label),
  whatever the configuration supplied for that key; the other keys are the
  configuration's.
\<close>

theorem update_sends_reserved_labels:
  assumes "environmentClient meta (rd_environment_id d) s = (Inr client, s1)"
    and "byId client (rd_id d) s1 = ((Some host, None), s2)"
  shows "\<exists>labels rest.
           calls (snd (snd (resourceRancherHostUpdate removed d meta s)))
             = calls s2 @ CallUpdate ''host'' host
                 \<lparr>data_name = rd_name d, data_description = rd_description d,
                    data_labels = labels\<rparr> # rest
         \<and> filter isUpdate rest = []
         \<and> (\<forall>k \<in> set roLabels. labels k = Some (index (Labels host) k))
         \<and> (\<forall>k. k \<notin> set roLabels \<longrightarrow> labels k = rd_labels d k)"
proof -
  let ?labels = "mergeLabels (rd_labels d) host roLabels"
  let ?data = "\<lparr>data_name = rd_name d, data_description = rd_description d,
                 data_labels = ?labels\<rparr>"
  obtain r s3 where u: "clientUpdate client ''host'' host ?data s2 = (r, s3)"
    by (cases "clientUpdate client ''host'' host ?data s2")
  then have c3: "calls s3 = calls s2 @ [CallUpdate ''host'' host ?data]"
    by (rule clientUpdate_calls)
  have "\<exists>rest. calls (snd (snd (resourceRancherHostUpdate removed d meta s)))
                 = calls s2 @ CallUpdate ''host'' host ?data # rest
               \<and> filter isUpdate rest = []"
  proof (cases r)
    case (Some err)
    with assms u c3 show ?thesis by (simp add: update_found)
  next
    case None
    with assms u have "resourceRancherHostUpdate removed d meta s
                         = resourceRancherHostRead removed d meta s3"
      by (simp add: update_found)
    with read_calls_no_update [of removed d meta s3] c3 show ?thesis by auto
  qed
  moreover have "\<forall>k \<in> set roLabels. ?labels k = Some (index (Labels host) k)"
    by (simp add: mergeLabels_apply)
  moreover have "\<forall>k. k \<notin> set roLabels \<longrightarrow> ?labels k = rd_labels d k"
    by (simp add: mergeLabels_apply)
  ultimately show ?thesis by blast
qed

theorem update_sends_reserved_labels_witness:
  "\<exists>labels rest.
     calls (snd (snd (resourceRancherHostUpdate removed_spec d1 (config (scripted None None None))
                        (start [(Some (host1 ''active''), None)]))))
       = [CallEnvironmentClient ''1a5'', CallById ''1h1'',
          CallUpdate ''host'' (host1 ''active'')
            \<lparr>data_name = ''n'', data_description = '''', data_labels = labels\<rparr>] @ rest
     \<and> labels ''io.rancher.host.kvm'' = Some (VStr ''true'')
     \<and> labels ''io.rancher.host.agent_image'' = Some VNil
     \<and> labels ''zone'' = Some (VStr ''a'')"
proof -
  have b: "byId (scripted None None None) (rd_id d1)
             \<lparr>world = [(Some (host1 ''active''), None)],
                calls = [CallEnvironmentClient (rd_environment_id d1)]\<rparr>
           = ((Some (host1 ''active''), None),
              \<lparr>world = [], calls = [CallEnvironmentClient (rd_environment_id d1)] @ [CallById (rd_id d1)]\<rparr>)"
    by (rule scripted_byId_Cons)
  from update_sends_reserved_labels [where removed = removed_spec, OF scripted_env b]
  obtain labels rest where
    c: "calls (snd (snd (resourceRancherHostUpdate removed_spec d1 (config (scripted None None None))
                        (start [(Some (host1 ''active''), None)]))))
          = ([CallEnvironmentClient (rd_environment_id d1)] @ [CallById (rd_id d1)])
            @ CallUpdate ''host'' (host1 ''active'')
                \<lparr>data_name = rd_name d1, data_description = rd_description d1,
                   data_labels = labels\<rparr> # rest"
    and r: "\<forall>k \<in> set roLabels. labels k = Some (index (Labels (host1 ''active'')) k)"
    and o: "\<forall>k. k \<notin> set roLabels \<longrightarrow> labels k = rd_labels d1 k"
    by auto
  from r have "labels ''io.rancher.host.kvm'' = Some (VStr ''true'')"
    and "labels ''io.rancher.host.agent_image'' = Some VNil"
    by (simp_all add: roLabels_def host1_def index_def)
  moreover from o have "labels ''zone'' = Some (VStr ''a'')"
    by (simp add: roLabels_def d1_def)
  moreover from c have "calls (snd (snd (resourceRancherHostUpdate removed_spec d1
                        (config (scripted None None None))
                        (start [(Some (host1 ''active''), None)]))))
       = [CallEnvironmentClient ''1a5'', CallById ''1h1'',
          CallUpdate ''host'' (host1 ''active'')
            \<lparr>data_name = ''n'', data_description = '''', data_labels = labels\<rparr>] @ rest"
    by (simp add: d1_def)
  ultimately show ?thesis by blast
qed

subsection \<open>The poll loop\<close>

lemma rounds_confs:
  "rounds (createConf client hostname) = 200"
  "rounds (deactivateConf client i) = 200"
  "rounds (removeConf client i) = 200"
  by (simp_all add: rounds_def createConf_def deactivateConf_def removeConf_def
        Second_def Minute_def)

lemma poll_target:
  "Refresh conf s = (Inr (Some h, st), s') \<Longrightarrow> st \<in> set (Target conf)
     \<Longrightarrow> poll conf (Suc n) nf s = (Inr (Some h), s')"
  by simp

lemma poll_refresh_failure:
  "Refresh conf s = (Inl f, s') \<Longrightarrow> poll conf (Suc n) nf s = (Inl f, s')"
  by simp









lemma removal_failure: "removal client d host s = (Inl f, d', s') \<Longrightarrow> d' = d"
  by (auto simp add: removal_def split: prod.splits sum.splits failure.splits option.splits)


section \<open>Deleting\<close>


subsection \<open>Running the scripted remote\<close>

lemma conf_simps:
  "Refresh (createConf client hostname) = findHost client hostname"
  "Target (createConf client hostname) = [''active'', ''disconnected'']"
  "Pending (createConf client hostname)
     = [''active'', ''removed'', ''removing'', ''not found'', ''registering'', ''activating'']"
  "notFoundChecks (createConf client hostname) = 50"
  "Refresh (deactivateConf client i) = HostStateRefreshFunc client i"
  "Target (deactivateConf client i) = [''inactive'']"
  "Pending (deactivateConf client i) = [''active'', ''inactive'', ''deactivating'']"
  "Refresh (removeConf client i) = HostStateRefreshFunc client i"
  "Target (removeConf client i) = [''removed'']"
  "Pending (removeConf client i) = [''inactive'', ''removed'', ''removing'']"
  by (simp_all add: createConf_def deactivateConf_def removeConf_def notFoundChecks_def)

lemma host1_simps:
  "State (host1 st) = st" "Hostname (host1 st) = ''node.example''" "Id_host (host1 st) = ''1h1''"
  by (simp_all add: host1_def)

lemma config_env:
  "environmentClient (config c) env \<lparr>world = w, calls = cs\<rparr>
     = (Inr c, \<lparr>world = w, calls = cs @ [CallEnvironmentClient env]\<rparr>)"
  by (simp add: client_defs config_def)

lemma scripted_refresh:
  "HostStateRefreshFunc (scripted a b c) i \<lparr>world = (Some h, None) # rs, calls = cs\<rparr>
     = (Inr (Some h, State h), \<lparr>world = rs, calls = cs @ [CallById i]\<rparr>)"
  by (simp add: refresh_found scripted_byId_Cons)

lemma scripted_findHost:
  "findHost (scripted a b c) hostname \<lparr>world = (None, e) # rs, calls = cs\<rparr>
     = (Inr (None, ''not found''), \<lparr>world = rs, calls = cs @ [CallList]\<rparr>)"
  "findHost (scripted a b c) hostname \<lparr>world = (Some h, e) # rs, calls = cs\<rparr>
     = (if Hostname h = hostname then Inr (Some h, State h) else Inr (None, ''not found''),
        \<lparr>world = rs, calls = cs @ [CallList]\<rparr>)"
  by (simp_all add: findHost_def hostList_def made_def scripted_def)

lemma scripted_calls:
  "actionDeactivate (scripted a b c) h \<lparr>world = w, calls = cs\<rparr>
     = ((None, a), \<lparr>world = w, calls = cs @ [CallActionDeactivate h]\<rparr>)"
  "hostDelete (scripted a b c) h \<lparr>world = w, calls = cs\<rparr>
     = (b, \<lparr>world = w, calls = cs @ [CallDelete h]\<rparr>)"
  "clientUpdate (scripted a b c) ty h data \<lparr>world = w, calls = cs\<rparr>
     = (c, \<lparr>world = w, calls = cs @ [CallUpdate ty h data]\<rparr>)"
  by (simp_all add: client_defs scripted_def)

lemmas run_simps = WaitForState_def rounds_confs poll_numeral conf_simps host1_simps config_env
  scripted_refresh scripted_findHost scripted_calls scripted_byId_Cons scripted_byId_Nil start_def



subsection \<open>Observations without a result\<close>

lemma after_0: "after refresh 0 s = s"
  by (simp add: after_def)

lemma after_Suc: "after refresh (Suc n) s = after refresh n (snd (refresh s))"
  unfolding after_def by (simp only: funpow_Suc_right o_apply)

lemma after_Suc': "after refresh (Suc n) s = snd (refresh (after refresh n s))"
  by (simp add: after_def)

lemma poll_notfound_run:
  assumes "\<forall>i<k. \<exists>x. fst (Refresh conf (after (Refresh conf) i s)) = Inr (None, x)"
    and "nf + k \<le> notFoundChecks conf" and "k \<le> n"
  shows "poll conf n nf s = poll conf (n - k) (nf + k) (after (Refresh conf) k s)"
  using assms
proof (induction k arbitrary: n nf s)
  case 0
  show ?case by (simp add: after_0)
next
  case (Suc k)
  from Suc.prems(3) obtain n' where n: "n = Suc n'" by (cases n) auto
  from Suc.prems(1) have "\<exists>x. fst (Refresh conf (after (Refresh conf) 0 s)) = Inr (None, x)"
    by blast
  then obtain x s1 where r: "Refresh conf s = (Inr (None, x), s1)"
    by (cases "Refresh conf s") (auto simp add: after_0)
  have "\<forall>i<k. \<exists>x. fst (Refresh conf (after (Refresh conf) i s1)) = Inr (None, x)"
  proof (intro allI impI)
    fix i assume "i < k"
    then have "Suc i < Suc k" by simp
    with Suc.prems(1) have "\<exists>x. fst (Refresh conf (after (Refresh conf) (Suc i) s)) = Inr (None, x)"
      by blast
    with r show "\<exists>x. fst (Refresh conf (after (Refresh conf) i s1)) = Inr (None, x)"
      by (simp add: after_Suc)
  qed
  moreover from Suc.prems(2) have "Suc nf + k \<le> notFoundChecks conf" by simp
  moreover from Suc.prems(3) n have "k \<le> n'" by simp
  ultimately have "poll conf n' (Suc nf) s1
      = poll conf (n' - k) (Suc nf + k) (after (Refresh conf) k s1)"
    by (rule Suc.IH)
  moreover from Suc.prems(2) have "\<not> Suc nf > notFoundChecks conf" by simp
  ultimately show ?case using r n by (simp add: after_Suc)
qed

lemma findHost_not_found:
  "hostList client s = ((Some hosts, e), s') \<Longrightarrow> \<forall>h \<in> set hosts. Hostname h \<noteq> hostname
     \<Longrightarrow> findHost client hostname s = (Inr (None, ''not found''), s')"
proof -
  assume l: "hostList client s = ((Some hosts, e), s')"
    and n: "\<forall>h \<in> set hosts. Hostname h \<noteq> hostname"
  from n have "find (\<lambda>h. Hostname h = hostname) hosts = None"
    by (simp add: find_None_iff)
  with l show ?thesis by (simp add: findHost_def)
qed

section \<open>Creating\<close>

text \<open>
  C5. In the poll after create, an observation in which no listed host has the
  requested hostname yields no result, the status "not found" and no error, whatever
  error the listing itself returned; "not found" is among the pending statuses and the
  bound on such observations is 50. Up to 50 of them in a row are tolerated: when the
  next observation finds the host in a target status the poll succeeds with that host.
  The 51st in a row ends the poll with a failure.
\<close>

theorem create_poll_tolerates_not_found:
  "(hostList client s = ((Some hosts, e), s') \<and> (\<forall>h \<in> set hosts. Hostname h \<noteq> hostname)
      \<longrightarrow> findHost client hostname s = (Inr (None, ''not found''), s'))
   \<and> ''not found'' \<in> set (Pending (createConf client hostname))
   \<and> NotFoundChecks (createConf client hostname) = 50
   \<and> (k \<le> 50
        \<and> (\<forall>i<k. fst (findHost client hostname (after (findHost client hostname) i s))
                     = Inr (None, ''not found''))
        \<and> findHost client hostname (after (findHost client hostname) k s)
              = (Inr (Some host, st), t)
        \<and> st \<in> {''active'', ''disconnected''}
      \<longrightarrow> WaitForState (createConf client hostname) s = (Inr (Some host), t))
   \<and> ((\<forall>i<51. fst (findHost client hostname (after (findHost client hostname) i s))
                     = Inr (None, ''not found''))
      \<longrightarrow> WaitForState (createConf client hostname) s
            = (Inl (Error ''could not find resource''), after (findHost client hostname) 51 s))"
proof (intro conjI impI)
  assume "hostList client s = ((Some hosts, e), s') \<and> (\<forall>h \<in> set hosts. Hostname h \<noteq> hostname)"
  then show "findHost client hostname s = (Inr (None, ''not found''), s')"
    by (simp add: findHost_not_found)
next
  show "''not found'' \<in> set (Pending (createConf client hostname))"
    by (simp add: conf_simps)
next
  show "NotFoundChecks (createConf client hostname) = 50"
    by (simp add: createConf_def)
next
  let ?conf = "createConf client hostname"
  let ?f = "findHost client hostname"
  assume a: "k \<le> 50
        \<and> (\<forall>i<k. fst (?f (after ?f i s)) = Inr (None, ''not found''))
        \<and> ?f (after ?f k s) = (Inr (Some host, st), t)
        \<and> st \<in> {''active'', ''disconnected''}"
  then have "\<forall>i<k. \<exists>x. fst (Refresh ?conf (after (Refresh ?conf) i s)) = Inr (None, x)"
    by (simp add: conf_simps)
  moreover from a have "0 + k \<le> notFoundChecks ?conf" "k \<le> 200"
    by (simp_all add: conf_simps)
  ultimately have "poll ?conf 200 0 s = poll ?conf (200 - k) (0 + k) (after (Refresh ?conf) k s)"
    by (rule poll_notfound_run)
  moreover from a obtain n where "200 - k = Suc n" by (cases "200 - k") auto
  moreover from a have "Refresh ?conf (after (Refresh ?conf) k s) = (Inr (Some host, st), t)"
    and "st \<in> set (Target ?conf)"
    by (auto simp add: conf_simps)
  ultimately show "WaitForState ?conf s = (Inr (Some host), t)"
    by (simp add: WaitForState_def rounds_confs poll_target)
next
  let ?conf = "createConf client hostname"
  let ?f = "findHost client hostname"
  assume a: "\<forall>i<51. fst (?f (after ?f i s)) = Inr (None, ''not found'')"
  then have "\<forall>i<50. \<exists>x. fst (Refresh ?conf (after (Refresh ?conf) i s)) = Inr (None, x)"
    by (simp add: conf_simps)
  moreover have "0 + 50 \<le> notFoundChecks ?conf" "(50::nat) \<le> 200"
    by (simp_all add: conf_simps)
  ultimately have "poll ?conf 200 0 s = poll ?conf (200 - 50) (0 + 50) (after (Refresh ?conf) 50 s)"
    by (rule poll_notfound_run)
  then have p: "poll ?conf 200 0 s = poll ?conf (Suc 149) 50 (after ?f 50 s)"
    by (simp add: conf_simps)
  from a have "fst (?f (after ?f 50 s)) = Inr (None, ''not found'')" by simp
  moreover have "after ?f 51 s = snd (?f (after ?f 50 s))"
    using after_Suc' [of ?f 50 s] by simp
  ultimately have "?f (after ?f 50 s) = (Inr (None, ''not found''), after ?f 51 s)"
    by (cases "?f (after ?f 50 s)") simp
  then have "poll ?conf (Suc 149) 50 (after ?f 50 s)
               = (Inl (Error ''could not find resource''), after ?f 51 s)"
    by (simp add: conf_simps poll_numeral)
  with p show "WaitForState ?conf s
                 = (Inl (Error ''could not find resource''), after ?f 51 s)"
    by (simp add: WaitForState_def rounds_confs)
qed

lemma steady_findHost_other:
  "Hostname h \<noteq> hostname
     \<Longrightarrow> findHost (steady h) hostname t = (Inr (None, ''not found''), made CallList () t)"
  by (simp add: findHost_def hostList_def steady_def)

theorem create_poll_tolerates_not_found_witness:
  "WaitForState (createConf (scripted None None None) ''node.example'')
     (start [(None, None), (None, Some ''connection refused''), (Some (host1 ''active''), None)])
     = (Inr (Some (host1 ''active'')), \<lparr>world = [], calls = [CallList, CallList, CallList]\<rparr>)
   \<and> fst (WaitForState (createConf (steady (host1 ''active'')) ''other.example'') (start ()))
     = Inl (Error ''could not find resource'')"
proof -
  let ?c = "scripted None None None"
  let ?f = "findHost ?c ''node.example''"
  let ?s = "start [(None, None), (None, Some ''connection refused''),
                   (Some (host1 ''active''), None)]"
  have s1: "after ?f (Suc 0) ?s
              = \<lparr>world = [(None, Some ''connection refused''), (Some (host1 ''active''), None)],
                 calls = [CallList]\<rparr>"
    by (simp add: after_Suc after_0 scripted_findHost start_def)
  have s2: "after ?f 2 ?s
              = \<lparr>world = [(Some (host1 ''active''), None)], calls = [CallList, CallList]\<rparr>"
    by (simp add: numeral_2_eq_2 after_Suc after_0 scripted_findHost start_def)
  have h: "(2::nat) \<le> 50
        \<and> (\<forall>i<2. fst (?f (after ?f i ?s)) = Inr (None, ''not found''))
        \<and> ?f (after ?f 2 ?s)
             = (Inr (Some (host1 ''active''), ''active''),
                \<lparr>world = [], calls = [CallList, CallList, CallList]\<rparr>)
        \<and> ''active'' \<in> {''active'', ''disconnected''}"
    by (simp add: s2 less_2_cases_iff s1 after_0 scripted_findHost host1_simps)
       (simp add: start_def scripted_findHost)
  let ?d = "steady (host1 ''active'')"
  have g: "\<forall>i<51. fst (findHost ?d ''other.example''
                          (after (findHost ?d ''other.example'') i (start ())))
                     = Inr (None, ''not found'')"
    by (simp add: steady_findHost_other host1_simps)
  from create_poll_tolerates_not_found [of ?c ?s _ _ _ "''node.example''" 2 "host1 ''active''"
         "''active''" "\<lparr>world = [], calls = [CallList, CallList, CallList]\<rparr>"] h
  have 1: "WaitForState (createConf ?c ''node.example'') ?s
     = (Inr (Some (host1 ''active'')), \<lparr>world = [], calls = [CallList, CallList, CallList]\<rparr>)"
    by blast
  from create_poll_tolerates_not_found [of ?d "start ()" _ _ _ "''other.example''"] g
  have 2: "WaitForState (createConf ?d ''other.example'') (start ())
            = (Inl (Error ''could not find resource''),
               after (findHost ?d ''other.example'') 51 (start ()))"
    by blast
  from 1 2 show ?thesis by simp
qed

subsection \<open>How a poll ends\<close>





lemma removal_wait_error:
  "hostDelete client host s = (None, s1)
     \<Longrightarrow> WaitForState (removeConf client (rd_id d)) s1 = (Inl (Error waitErr), s2)
     \<Longrightarrow> removal client d host s
           = (Inl (Error (''Error waiting for host ('' @ rd_id d @ '') to be removed: ''
                            @ waitErr)), d, s2)"
  by (simp add: removal_def)





section \<open>Errors of the remote client\<close>

lemma create_env_err:
  "environmentClient meta (rd_environment_id d) s = (Inl err, s1)
     \<Longrightarrow> resourceRancherHostCreate removed d meta s = (Inl (Error err), d, s1)"
  by (simp add: resourceRancherHostCreate_def)

lemma create_found:
  "environmentClient meta (rd_environment_id d) s = (Inr client, s1)
     \<Longrightarrow> WaitForState (createConf client (rd_hostname d)) s1 = (Inr (Some host), s2)
     \<Longrightarrow> resourceRancherHostCreate removed d meta s
           = resourceRancherHostUpdate removed (d\<lparr>rd_id := Id_host host\<rparr>) meta s2"
  by (simp add: resourceRancherHostCreate_def)

lemma findHost_listed:
  "hostList client s = ((Some hosts, e), s')
     \<Longrightarrow> findHost client hostname s =
           (case find (\<lambda>h. Hostname h = hostname) hosts of
              Some host \<Rightarrow> (Inr (Some host, State host), s')
            | None \<Rightarrow> (Inr (None, ''not found''), s'))"
  by (simp add: findHost_def)

text \<open>
  C7, as the code has it. The listing call of the create poll returns an error that
  nothing looks at: \<^verbatim>\<open>findHost\<close> reports "not found" without an error, and a create
  whose first listing failed ends in success.
\<close>

theorem findHost_discards_error_counterexample:
  "hostList (scripted None None None) (start [(None, Some ''connection refused'')])
     = ((Some [], Some ''connection refused''), \<lparr>world = [], calls = [CallList]\<rparr>)
   \<and> findHost (scripted None None None) ''node.example''
         (start [(None, Some ''connection refused'')])
     = (Inr (None, ''not found''), \<lparr>world = [], calls = [CallList]\<rparr>)
   \<and> fst (resourceRancherHostCreate removed_spec d1 (config (scripted None None None))
            (start [(None, Some ''connection refused''), (Some (host1 ''active''), None),
                    (Some (host1 ''active''), None), (Some (host1 ''active''), None)]))
     = Inr ()"
proof (intro conjI)
  show "hostList (scripted None None None) (start [(None, Some ''connection refused'')])
     = ((Some [], Some ''connection refused''), \<lparr>world = [], calls = [CallList]\<rparr>)"
    by (simp add: hostList_def made_def scripted_def start_def)
  show "findHost (scripted None None None) ''node.example''
         (start [(None, Some ''connection refused'')])
     = (Inr (None, ''not found''), \<lparr>world = [], calls = [CallList]\<rparr>)"
    by (simp add: run_simps)
  show "fst (resourceRancherHostCreate removed_spec d1 (config (scripted None None None))
            (start [(None, Some ''connection refused''), (Some (host1 ''active''), None),
                    (Some (host1 ''active''), None), (Some (host1 ''active''), None)]))
     = Inr ()"
    by (simp add: resourceRancherHostCreate_def resourceRancherHostUpdate_def
          resourceRancherHostRead_def run_simps d1_def removed_spec_def Let_def)
qed

text \<open>
  C7, amended: an error returned by the remote client is propagated to the caller as it
  is (the creation of the environment client, the fetch by id in read, update and
  delete, the update call) or inside a short contextual message (the deactivate action,
  the delete call, a fetch by id inside a poll of delete), and create and update hand on
  the result of the operation they end with; the one exception is the listing call of
  the create poll, whose error is discarded: \<^verbatim>\<open>findHost\<close> computes its observation
  from the returned collection alone.
\<close>

theorem client_errors_propagated:
  "(environmentClient meta (rd_environment_id d) s = (Inr client, s1)
      \<and> byId client (rd_id d) s1 = ((h, Some err), s2)
      \<longrightarrow> resourceRancherHostRead removed d meta s = (Inl (Error err), d, s2)
        \<and> resourceRancherHostUpdate removed d meta s = (Inl (Error err), d, s2)
        \<and> resourceRancherHostDelete d meta s = (Inl (Error err), d, s2))
   \<and> (environmentClient meta (rd_environment_id d) s = (Inr client, s1)
      \<and> byId client (rd_id d) s1 = ((Some host, None), s2)
      \<and> State host \<noteq> ''inactive''
      \<and> actionDeactivate client host s2 = ((x, Some err), s3)
      \<longrightarrow> resourceRancherHostDelete d meta s
            = (Inl (Error (''Error deactivating Host: '' @ err)), d, s3))
   \<and> (environmentClient meta (rd_environment_id d) s = (Inr client, s1)
      \<and> byId client (rd_id d) s1 = ((Some host, None), s2)
      \<and> (if State host \<noteq> ''inactive'' then deactivate client (rd_id d) host s2
          else (Inr (), s2)) = (Inr (), s3)
      \<and> hostDelete client host s3 = (Some err, s4)
      \<longrightarrow> resourceRancherHostDelete d meta s
            = (Inl (Error (''Error deleting Host: '' @ err)), d, s4))
   \<and> (environmentClient meta (rd_environment_id d) s = (Inr client, s1)
      \<and> byId client (rd_id d) s1 = ((Some host, None), s2)
      \<and> clientUpdate client ''host'' host
            \<lparr>data_name = rd_name d, data_description = rd_description d,
               data_labels = mergeLabels (rd_labels d) host roLabels\<rparr> s2 = (u, s3)
      \<longrightarrow> resourceRancherHostUpdate removed d meta s
            = (case u of Some err \<Rightarrow> (Inl (Error err), d, s3)
                       | None \<Rightarrow> resourceRancherHostRead removed d meta s3))
   \<and> (environmentClient meta (rd_environment_id d) s = (Inl err, s1)
      \<longrightarrow> resourceRancherHostRead removed d meta s = (Inl (Error err), d, s1)
        \<and> resourceRancherHostUpdate removed d meta s = (Inl (Error err), d, s1)
        \<and> resourceRancherHostCreate removed d meta s = (Inl (Error err), d, s1)
        \<and> resourceRancherHostDelete d meta s = (Inl (Error err), d, s1))
   \<and> (byId client i t = ((h, Some err), t')
      \<longrightarrow> HostStateRefreshFunc client i t = (Inl (Error err), t'))
   \<and> (Refresh conf t = (Inl (Error err), t')
      \<longrightarrow> poll conf (Suc n) notfoundTick t = (Inl (Error err), t'))
   \<and> (environmentClient meta (rd_environment_id d) s = (Inr client, s1)
      \<and> byId client (rd_id d) s1 = ((Some host, None), s2)
      \<and> (if State host \<noteq> ''inactive'' then deactivate client (rd_id d) host s2
          else (Inr (), s2)) = (Inr (), s3)
      \<and> hostDelete client host s3 = (None, s4)
      \<and> byId client (rd_id d) s4 = ((h, Some err), s5)
      \<longrightarrow> resourceRancherHostDelete d meta s
            = (Inl (Error (''Error waiting for host ('' @ rd_id d @ '') to be removed: ''
                             @ err)), d, s5))
   \<and> (environmentClient meta (rd_environment_id d) s = (Inr client, s1)
      \<and> WaitForState (createConf client (rd_hostname d)) s1 = (Inr (Some host), s2)
      \<longrightarrow> resourceRancherHostCreate removed d meta s
            = resourceRancherHostUpdate removed (d\<lparr>rd_id := Id_host host\<rparr>) meta s2)
   \<and> (hostList client t = ((Some hosts, e), t')
      \<longrightarrow> findHost client hostname t =
            (case find (\<lambda>h. Hostname h = hostname) hosts of
               Some host \<Rightarrow> (Inr (Some host, State host), t')
             | None \<Rightarrow> (Inr (None, ''not found''), t')))"
proof (intro conjI impI)
  assume a: "environmentClient meta (rd_environment_id d) s = (Inr client, s1)
      \<and> byId client (rd_id d) s1 = ((h, Some err), s2)"
  then show "resourceRancherHostRead removed d meta s = (Inl (Error err), d, s2)"
    by (simp add: read_byId_err)
  from a show "resourceRancherHostUpdate removed d meta s = (Inl (Error err), d, s2)"
    by (simp add: update_byId_err)
  from a show "resourceRancherHostDelete d meta s = (Inl (Error err), d, s2)"
    by (simp add: delete_byId_err)
next
  assume a: "environmentClient meta (rd_environment_id d) s = (Inr client, s1)
      \<and> byId client (rd_id d) s1 = ((Some host, None), s2)
      \<and> State host \<noteq> ''inactive''
      \<and> actionDeactivate client host s2 = ((x, Some err), s3)"
  then have "deactivate client (rd_id d) host s2
               = (Inl (Error (''Error deactivating Host: '' @ err)), s3)"
    by (simp add: deactivate_err)
  with a show "resourceRancherHostDelete d meta s
            = (Inl (Error (''Error deactivating Host: '' @ err)), d, s3)"
    by (simp add: delete_found)
next
  assume a: "environmentClient meta (rd_environment_id d) s = (Inr client, s1)
      \<and> byId client (rd_id d) s1 = ((Some host, None), s2)
      \<and> (if State host \<noteq> ''inactive'' then deactivate client (rd_id d) host s2
          else (Inr (), s2)) = (Inr (), s3)
      \<and> hostDelete client host s3 = (Some err, s4)"
  then have "removal client d host s3 = (Inl (Error (''Error deleting Host: '' @ err)), d, s4)"
    by (simp add: removal_def)
  with a show "resourceRancherHostDelete d meta s
            = (Inl (Error (''Error deleting Host: '' @ err)), d, s4)"
    by (simp add: delete_found)
next
  assume "environmentClient meta (rd_environment_id d) s = (Inr client, s1)
      \<and> byId client (rd_id d) s1 = ((Some host, None), s2)
      \<and> clientUpdate client ''host'' host
            \<lparr>data_name = rd_name d, data_description = rd_description d,
               data_labels = mergeLabels (rd_labels d) host roLabels\<rparr> s2 = (u, s3)"
  then show "resourceRancherHostUpdate removed d meta s
            = (case u of Some err \<Rightarrow> (Inl (Error err), d, s3)
                       | None \<Rightarrow> resourceRancherHostRead removed d meta s3)"
    by (cases u) (simp_all add: update_found)
next
  assume a: "environmentClient meta (rd_environment_id d) s = (Inl err, s1)"
  then show "resourceRancherHostRead removed d meta s = (Inl (Error err), d, s1)"
    by (rule read_env_err)
  from a show "resourceRancherHostUpdate removed d meta s = (Inl (Error err), d, s1)"
    by (rule update_env_err)
  from a show "resourceRancherHostCreate removed d meta s = (Inl (Error err), d, s1)"
    by (rule create_env_err)
  from a show "resourceRancherHostDelete d meta s = (Inl (Error err), d, s1)"
    by (rule delete_env_err)
next
  assume "byId client i t = ((h, Some err), t')"
  then show "HostStateRefreshFunc client i t = (Inl (Error err), t')"
    by (rule refresh_err)
next
  assume "Refresh conf t = (Inl (Error err), t')"
  then show "poll conf (Suc n) notfoundTick t = (Inl (Error err), t')"
    by (rule poll_refresh_failure)
next
  assume a: "environmentClient meta (rd_environment_id d) s = (Inr client, s1)
      \<and> byId client (rd_id d) s1 = ((Some host, None), s2)
      \<and> (if State host \<noteq> ''inactive'' then deactivate client (rd_id d) host s2
          else (Inr (), s2)) = (Inr (), s3)
      \<and> hostDelete client host s3 = (None, s4)
      \<and> byId client (rd_id d) s4 = ((h, Some err), s5)"
  then have "HostStateRefreshFunc client (rd_id d) s4 = (Inl (Error err), s5)"
    by (simp add: refresh_err)
  then have "WaitForState (removeConf client (rd_id d)) s4 = (Inl (Error err), s5)"
    by (simp add: WaitForState_def rounds_confs poll_numeral conf_simps)
  with a have "removal client d host s3
           = (Inl (Error (''Error waiting for host ('' @ rd_id d @ '') to be removed: ''
                            @ err)), d, s5)"
    by (simp add: removal_wait_error)
  with a show "resourceRancherHostDelete d meta s
            = (Inl (Error (''Error waiting for host ('' @ rd_id d @ '') to be removed: ''
                             @ err)), d, s5)"
    by (simp add: delete_found)
next
  assume "environmentClient meta (rd_environment_id d) s = (Inr client, s1)
      \<and> WaitForState (createConf client (rd_hostname d)) s1 = (Inr (Some host), s2)"
  then show "resourceRancherHostCreate removed d meta s
            = resourceRancherHostUpdate removed (d\<lparr>rd_id := Id_host host\<rparr>) meta s2"
    by (simp add: create_found)
next
  assume "hostList client t = ((Some hosts, e), t')"
  then show "findHost client hostname t =
            (case find (\<lambda>h. Hostname h = hostname) hosts of
               Some host \<Rightarrow> (Inr (Some host, State host), t')
             | None \<Rightarrow> (Inr (None, ''not found''), t'))"
    by (rule findHost_listed)
qed

theorem client_errors_propagated_witness:
  "resourceRancherHostRead removed_spec d1 (config (scripted None None None))
     (start [(None, Some ''forbidden'')])
     = (Inl (Error ''forbidden''), d1,
        \<lparr>world = [], calls = [CallEnvironmentClient ''1a5'', CallById ''1h1'']\<rparr>)
   \<and> resourceRancherHostDelete d1 (config (scripted (Some ''busy'') None None))
     (start [(Some (host1 ''active''), None)])
     = (Inl (Error ''Error deactivating Host: busy''), d1,
        \<lparr>world = [], calls = [CallEnvironmentClient ''1a5'', CallById ''1h1'',
                               CallActionDeactivate (host1 ''active'')]\<rparr>)"
proof -
  let ?c = "scripted None None None"
  let ?s1 = "\<lparr>world = [(None, Some ''forbidden'')], calls = [CallEnvironmentClient ''1a5'']\<rparr>"
  let ?s2 = "\<lparr>world = [] :: script, calls = [CallEnvironmentClient ''1a5'', CallById ''1h1'']\<rparr>"
  have h1: "environmentClient (config ?c) (rd_environment_id d1) (start [(None, Some ''forbidden'')])
              = (Inr ?c, ?s1)
      \<and> byId ?c (rd_id d1) ?s1 = ((None, Some ''forbidden''), ?s2)"
    by (simp add: run_simps d1_def)
  note client_errors_propagated [where removed = removed_spec, THEN conjunct1, THEN mp, OF h1]
  then have 1: "resourceRancherHostRead removed_spec d1 (config ?c)
                  (start [(None, Some ''forbidden'')]) = (Inl (Error ''forbidden''), d1, ?s2)"
    by simp
  let ?k = "scripted (Some ''busy'') None None"
  let ?t1 = "\<lparr>world = [(Some (host1 ''active''), None)], calls = [CallEnvironmentClient ''1a5'']\<rparr>"
  let ?t3 = "\<lparr>world = [] :: script,
              calls = [CallEnvironmentClient ''1a5'', CallById ''1h1'',
                       CallActionDeactivate (host1 ''active'')]\<rparr>"
  have h2: "environmentClient (config ?k) (rd_environment_id d1)
               (start [(Some (host1 ''active''), None)]) = (Inr ?k, ?t1)
      \<and> byId ?k (rd_id d1) ?t1 = ((Some (host1 ''active''), None), ?s2)
      \<and> State (host1 ''active'') \<noteq> ''inactive''
      \<and> actionDeactivate ?k (host1 ''active'') ?s2 = ((None, Some ''busy''), ?t3)"
    by (simp add: run_simps d1_def)
  note client_errors_propagated [where removed = removed_spec, THEN conjunct2, THEN conjunct1,
      THEN mp, OF h2]
  then have 2: "resourceRancherHostDelete d1 (config ?k) (start [(Some (host1 ''active''), None)])
                  = (Inl (Error ''Error deactivating Host: busy''), d1, ?t3)"
    by simp
  from 1 2 show ?thesis by simp
qed

end
